theory Spec2Isabelle
  imports Complex_Main
begin

section \<open>Time, identifiers and errors\<close>

text \<open>
  The models of \<^verbatim>\<open>app/db/models/match.py\<close> and \<^verbatim>\<open>app/db/models/session.py\<close>.

  A \<^verbatim>\<open>datetime\<close> is the number of microseconds since a fixed epoch (the resolution of
  Python's \<^verbatim>\<open>datetime\<close>), a \<^verbatim>\<open>timedelta\<close> a number of microseconds. Every call of
  \<^verbatim>\<open>datetime.utcnow()\<close> is an explicit argument of the function that makes it, one
  argument per call, in the order the calls are made. A UUID is a natural number.
  Python's \<^verbatim>\<open>float\<close> columns and arguments are modelled by the real numbers: rounding,
  infinities and NaN are outside the model.
\<close>

type_synonym datetime = int
type_synonym timedelta = int
type_synonym uuid = nat

definition timedelta_minutes :: "int \<Rightarrow> timedelta" where
  "timedelta_minutes n = n * 60 * 1000000"

text \<open>\<^verbatim>\<open>int(td.total_seconds())\<close>: whole seconds, truncated towards zero.\<close>

definition total_seconds_int :: "timedelta \<Rightarrow> int" where
  "total_seconds_int td = (if 0 \<le> td then td div 1000000 else - ((- td) div 1000000))"

datatype py_error = ValueError string | ZeroDivisionError

section \<open>Match candidates\<close>

datatype MatchCandidateStatus = IDLE | QUEUED | PROPOSED | MATCHED | COOLDOWN

record MatchCandidate =
  user_id :: uuid
  status :: MatchCandidateStatus
  queued_at :: "datetime option"
  last_match_at :: "datetime option"
  queue_priority :: real
  average_rating :: real
  total_ratings :: int
  strike_count :: int
  successful_matches :: int
  blocked_user_ids :: "uuid list"
  cooldown_until :: "datetime option"
  cooldown_reason :: "string option"
  rejection_count_today :: int
  last_rejection_reset :: "datetime option"
  current_match_id :: "uuid option"

text \<open>A candidate row as the column defaults create it.\<close>

definition new_candidate :: "uuid \<Rightarrow> MatchCandidate" where
  "new_candidate u =
     \<lparr>user_id = u, status = IDLE, queued_at = None, last_match_at = None,
      queue_priority = 0, average_rating = 5, total_ratings = 0, strike_count = 0,
      successful_matches = 0, blocked_user_ids = [], cooldown_until = None,
      cooldown_reason = None, rejection_count_today = 0, last_rejection_reset = None,
      current_match_id = None\<rparr>"

definition add_cooldown :: "MatchCandidate \<Rightarrow> datetime \<Rightarrow> int \<Rightarrow> string \<Rightarrow> MatchCandidate" where
  "add_cooldown self now duration_minutes reason =
     self\<lparr>status := COOLDOWN,
          cooldown_until := Some (now + timedelta_minutes duration_minutes),
          cooldown_reason := Some reason\<rparr>"

text \<open>
  \<^verbatim>\<open>add_rating\<close> increments \<^verbatim>\<open>total_ratings\<close> and then divides by it: Python raises
  \<^verbatim>\<open>ZeroDivisionError\<close> when the incremented counter is zero.
\<close>

definition add_rating :: "MatchCandidate \<Rightarrow> real \<Rightarrow> py_error + MatchCandidate" where
  "add_rating self rating =
     (let total_score = average_rating self * real_of_int (total_ratings self);
          self1 = self\<lparr>total_ratings := total_ratings self + 1\<rparr>
      in if total_ratings self1 = 0 then Inl ZeroDivisionError
         else Inr (self1\<lparr>average_rating :=
                     (total_score + rating) / real_of_int (total_ratings self1)\<rparr>))"

definition add_strike :: "MatchCandidate \<Rightarrow> datetime \<Rightarrow> MatchCandidate" where
  "add_strike self now =
     (let self1 = self\<lparr>strike_count := strike_count self + 1\<rparr>
      in if strike_count self1 \<ge> 3
         then add_cooldown self1 now (60 * 24) ''excessive_strikes''
         else self1)"

section \<open>Matches\<close>

datatype MatchState = PROPOSED | ACCEPTED | REJECTED | EXPIRED | SESSION_CREATED

record Match =
  user1_id :: uuid
  user2_id :: uuid
  match_score :: real
  state :: MatchState
  proposed_at :: datetime
  expires_at :: datetime
  user1_response :: "string option"
  user2_response :: "string option"
  user1_responded_at :: "datetime option"
  user2_responded_at :: "datetime option"
  session_id :: "uuid option"
  rejection_reason :: "string option"
  failure_reason :: "string option"
  accepted_at :: "datetime option"
  completed_at :: "datetime option"

text \<open>A match row as the column defaults create it.\<close>

definition new_match :: "uuid \<Rightarrow> uuid \<Rightarrow> real \<Rightarrow> datetime \<Rightarrow> datetime \<Rightarrow> Match" where
  "new_match u1 u2 sc proposed expires =
     \<lparr>user1_id = u1, user2_id = u2, match_score = sc, state = MatchState.PROPOSED,
      proposed_at = proposed, expires_at = expires,
      user1_response = None, user2_response = None,
      user1_responded_at = None, user2_responded_at = None,
      session_id = None, rejection_reason = None, failure_reason = None,
      accepted_at = None, completed_at = None\<rparr>"

definition is_expired :: "Match \<Rightarrow> datetime \<Rightarrow> bool" where
  "is_expired self now = (now > expires_at self)"

definition is_pending :: "Match \<Rightarrow> datetime \<Rightarrow> bool" where
  "is_pending self now = (Match.state self = MatchState.PROPOSED \<and> \<not> is_expired self now)"

definition is_fully_responded :: "Match \<Rightarrow> bool" where
  "is_fully_responded self = (user1_response self \<noteq> None \<and> user2_response self \<noteq> None)"

definition is_accepted_by_both :: "Match \<Rightarrow> bool" where
  "is_accepted_by_both self =
     (user1_response self = Some ''accepted'' \<and> user2_response self = Some ''accepted'')"

text \<open>\<^verbatim>\<open>Match._update_state_after_response\<close>; its clock reading is \<open>now\<close>.\<close>

definition update_state_after_response :: "Match \<Rightarrow> datetime \<Rightarrow> Match" where
  "update_state_after_response self now =
     (if \<not> is_fully_responded self then self
      else if is_accepted_by_both self
      then self\<lparr>Match.state := MatchState.ACCEPTED, accepted_at := Some now\<rparr>
      else
        (let self1 = self\<lparr>Match.state := MatchState.REJECTED, completed_at := Some now\<rparr>
         in if user1_response self1 = Some ''rejected'' \<and> user2_response self1 = Some ''rejected''
            then self1\<lparr>rejection_reason := Some ''both_rejected''\<rparr>
            else if user1_response self1 = Some ''rejected''
            then self1\<lparr>rejection_reason := Some ''user1_rejected''\<rparr>
            else self1\<lparr>rejection_reason := Some ''user2_rejected''\<rparr>))"

text \<open>
  \<^verbatim>\<open>Match.set_user_response\<close>: \<open>now\<close> is the clock reading of the method itself,
  \<open>now2\<close> the one \<^verbatim>\<open>_update_state_after_response\<close> makes afterwards. The
  \<^verbatim>\<open>raise\<close> happens before any field is written.
\<close>

definition set_user_response ::
    "Match \<Rightarrow> datetime \<Rightarrow> datetime \<Rightarrow> uuid \<Rightarrow> string \<Rightarrow> py_error + Match" where
  "set_user_response self now now2 uid response =
     (if uid = Match.user1_id self
      then Inr (update_state_after_response
                  (self\<lparr>user1_response := Some response, user1_responded_at := Some now\<rparr>) now2)
      else if uid = Match.user2_id self
      then Inr (update_state_after_response
                  (self\<lparr>user2_response := Some response, user2_responded_at := Some now\<rparr>) now2)
      else Inl (ValueError ''User ID not found in this match''))"

definition expire_match :: "Match \<Rightarrow> datetime \<Rightarrow> Match" where
  "expire_match self now =
     (let self1 = self\<lparr>Match.state := MatchState.EXPIRED, completed_at := Some now\<rparr>;
          self2 = (if user1_response self1 = None
                   then self1\<lparr>user1_response := Some ''timeout''\<rparr> else self1)
      in if user2_response self2 = None
         then self2\<lparr>user2_response := Some ''timeout''\<rparr> else self2)"

definition create_session :: "Match \<Rightarrow> uuid \<Rightarrow> Match" where
  "create_session self sid =
     self\<lparr>session_id := Some sid, Match.state := MatchState.SESSION_CREATED\<rparr>"

text \<open>
  \<^verbatim>\<open>Match.calculate_match_quality_score\<close>: the \<^verbatim>\<open>weights\<close> dictionary in its
  insertion order, the loop over its items, and the final clamp. A factor that is not a
  key of \<open>factors\<close> leaves the running score as it is.
\<close>

definition weights :: "(string \<times> real) list" where
  "weights =
     [(''level_affinity'', 0.25),
      (''native_target_match'', 0.30),
      (''interest_overlap'', 0.20),
      (''timezone_overlap'', 0.15),
      (''quality_score'', 0.10)]"

fun score_loop :: "(string \<times> real) list \<Rightarrow> (string \<rightharpoonup> real) \<Rightarrow> real \<Rightarrow> real" where
  "score_loop [] factors score = score"
| "score_loop ((factor, weight) # rest) factors score =
     score_loop rest factors
       (case factors factor of
          Some v \<Rightarrow> score + v * weight
        | None \<Rightarrow> score)"

definition calculate_match_quality_score :: "(string \<rightharpoonup> real) \<Rightarrow> real" where
  "calculate_match_quality_score factors = min 1 (max 0 (score_loop weights factors 0))"

text \<open>
  The value a factor contributes in the specification's sum
  \<^verbatim>\<open>sum of weight(f) * factors[f]\<close>: the entry of \<open>factors\<close>, and 0 when the factor is missing.
\<close>

definition factor_value :: "(string \<rightharpoonup> real) \<Rightarrow> string \<Rightarrow> real" where
  "factor_value factors name = (case factors name of Some v \<Rightarrow> v | None \<Rightarrow> 0)"

section \<open>Sessions\<close>

datatype SessionState = ACTIVE | PAUSED | ENDED | DROPPED | EXPIRED

datatype TurnLanguage = USER1_NATIVE | USER2_NATIVE | MIXED

datatype SessionEndReason =
  COMPLETED | USER_LEFT | INACTIVITY | TECHNICAL_ERROR | MODERATION | MAXIMUM_DURATION

record Session =
  match_id :: uuid
  user1_id :: uuid
  user2_id :: uuid
  planned_duration_minutes :: int
  state :: SessionState
  current_turn_language :: TurnLanguage
  turn_switched_at :: "datetime option"
  turn_switch_count :: int
  auto_turn_switch_enabled :: bool
  started_at :: datetime
  ended_at :: "datetime option"
  last_activity_at :: datetime
  paused_at :: "datetime option"
  total_messages :: int
  user1_message_count :: int
  user2_message_count :: int
  active_duration_seconds :: int
  paused_duration_seconds :: int
  user1_last_seen :: "datetime option"
  user2_last_seen :: "datetime option"
  user1_typing :: bool
  user2_typing :: bool
  toxicity_warnings :: int
  end_reason :: "SessionEndReason option"
  ended_by_user_id :: "uuid option"

text \<open>A session row as the column defaults create it, started at \<open>t\<close>.\<close>

definition new_session :: "uuid \<Rightarrow> uuid \<Rightarrow> uuid \<Rightarrow> datetime \<Rightarrow> Session" where
  "new_session mid u1 u2 t =
     \<lparr>match_id = mid, user1_id = u1, user2_id = u2, planned_duration_minutes = 25,
      state = ACTIVE, current_turn_language = USER1_NATIVE, turn_switched_at = None,
      turn_switch_count = 0, auto_turn_switch_enabled = True, started_at = t,
      ended_at = None, last_activity_at = t, paused_at = None, total_messages = 0,
      user1_message_count = 0, user2_message_count = 0, active_duration_seconds = 0,
      paused_duration_seconds = 0, user1_last_seen = None, user2_last_seen = None,
      user1_typing = False, user2_typing = False, toxicity_warnings = 0,
      end_reason = None, ended_by_user_id = None\<rparr>"

definition is_active :: "Session \<Rightarrow> bool" where
  "is_active self = (state self = ACTIVE)"

definition is_ended :: "Session \<Rightarrow> bool" where
  "is_ended self = (state self = ENDED \<or> state self = DROPPED \<or> state self = EXPIRED)"

definition update_activity :: "Session \<Rightarrow> datetime \<Rightarrow> uuid option \<Rightarrow> Session" where
  "update_activity self now uid =
     (let self1 = self\<lparr>last_activity_at := now\<rparr>
      in case uid of
           None \<Rightarrow> self1
         | Some u \<Rightarrow>
             if u = user1_id self1 then self1\<lparr>user1_last_seen := Some now\<rparr>
             else if u = user2_id self1 then self1\<lparr>user2_last_seen := Some now\<rparr>
             else self1)"

definition switch_turn_language :: "Session \<Rightarrow> datetime \<Rightarrow> Session" where
  "switch_turn_language self now =
     (let self1 =
            (if current_turn_language self = USER1_NATIVE
             then self\<lparr>current_turn_language := USER2_NATIVE\<rparr>
             else if current_turn_language self = USER2_NATIVE
             then self\<lparr>current_turn_language := USER1_NATIVE\<rparr>
             else self\<lparr>current_turn_language := USER1_NATIVE\<rparr>)
      in self1\<lparr>turn_switched_at := Some now,
                turn_switch_count := turn_switch_count self1 + 1\<rparr>)"

text \<open>Successive calls of \<^verbatim>\<open>switch_turn_language\<close>, one per clock reading of the list.\<close>

fun switch_turns :: "Session \<Rightarrow> datetime list \<Rightarrow> Session" where
  "switch_turns self [] = self"
| "switch_turns self (now # nows) = switch_turns (switch_turn_language self now) nows"

definition pause_session :: "Session \<Rightarrow> datetime \<Rightarrow> string \<Rightarrow> Session" where
  "pause_session self now reason =
     (if state self = ACTIVE
      then
        (let self1 =
               (if paused_at self = None
                then self\<lparr>active_duration_seconds :=
                            active_duration_seconds self
                              + total_seconds_int (now - started_at self)\<rparr>
                else self)
         in self1\<lparr>state := PAUSED, paused_at := Some now\<rparr>)
      else self)"

text \<open>
  \<^verbatim>\<open>resume_session\<close>: \<open>now\<close> is its own clock reading, \<open>now2\<close> the one
  \<^verbatim>\<open>update_activity()\<close> makes.
\<close>

definition resume_session :: "Session \<Rightarrow> datetime \<Rightarrow> datetime \<Rightarrow> Session" where
  "resume_session self now now2 =
     (case paused_at self of
        Some p \<Rightarrow>
          if state self = PAUSED
          then update_activity
                 (self\<lparr>paused_duration_seconds :=
                          paused_duration_seconds self + total_seconds_int (now - p),
                        state := ACTIVE, paused_at := None\<rparr>)
                 now2 None
          else self
      | None \<Rightarrow> self)"

definition end_session ::
    "Session \<Rightarrow> datetime \<Rightarrow> SessionEndReason \<Rightarrow> uuid option \<Rightarrow> Session" where
  "end_session self now reason ended_by =
     (if is_ended self then self
      else
        (let self1 =
               (if state self = ACTIVE
                then self\<lparr>active_duration_seconds :=
                            active_duration_seconds self
                              + total_seconds_int
                                  (now - (case paused_at self of
                                            Some p \<Rightarrow> p
                                          | None \<Rightarrow> started_at self))\<rparr>
                else
                  (case paused_at self of
                     Some p \<Rightarrow>
                       if state self = PAUSED
                       then self\<lparr>paused_duration_seconds :=
                                   paused_duration_seconds self
                                     + total_seconds_int (now - p)\<rparr>
                       else self
                   | None \<Rightarrow> self));
             self2 =
               (if reason = COMPLETED then self1\<lparr>state := ENDED\<rparr>
                else if reason = MAXIMUM_DURATION then self1\<lparr>state := EXPIRED\<rparr>
                else self1\<lparr>state := DROPPED\<rparr>)
         in self2\<lparr>ended_at := Some now, end_reason := Some reason,
                   ended_by_user_id := ended_by,
                   user1_typing := False, user2_typing := False\<rparr>))"

section \<open>Session durations\<close>

text \<open>
  C1. Start at 0 s, pause at 60 s, resume at 120 s, end with reason \<^verbatim>\<open>COMPLETED\<close> at
  180 s (clock readings in microseconds). The session was active for 120 s and paused for
  60 s; \<^verbatim>\<open>end_session\<close> leaves \<^verbatim>\<open>active_duration_seconds\<close> = 240 and
  \<^verbatim>\<open>paused_duration_seconds\<close> = 60. After \<^verbatim>\<open>resume_session\<close> has cleared
  \<^verbatim>\<open>paused_at\<close>, an active session's elapsed time is measured from \<^verbatim>\<open>started_at\<close>,
  not from the resume, so the 60 s accrued by the pause are counted again together with
  the paused minute.
\<close>

theorem end_session_scenario_active_240:
  "active_duration_seconds
     (end_session
        (resume_session
           (pause_session (new_session 1 10 20 0) 60000000 ''disconnection'')
           120000000 120000000)
        180000000 COMPLETED None) = 240
   \<and> paused_duration_seconds
     (end_session
        (resume_session
           (pause_session (new_session 1 10 20 0) 60000000 ''disconnection'')
           120000000 120000000)
        180000000 COMPLETED None) = 60"
  by (simp add: end_session_def resume_session_def pause_session_def new_session_def
      update_activity_def is_ended_def total_seconds_int_def)

section \<open>Responses to a match proposal\<close>

lemma update_state_after_response_keeps:
  "user1_response (update_state_after_response m t) = user1_response m"
  "user2_response (update_state_after_response m t) = user2_response m"
  "user1_responded_at (update_state_after_response m t) = user1_responded_at m"
  "user2_responded_at (update_state_after_response m t) = user2_responded_at m"
  "Match.user1_id (update_state_after_response m t) = Match.user1_id m"
  "Match.user2_id (update_state_after_response m t) = Match.user2_id m"
  by (simp_all add: update_state_after_response_def Let_def)

text \<open>
  C2, as stated, fails: \<^verbatim>\<open>set_user_response\<close> never looks at the state. On a match that
  is \<^verbatim>\<open>EXPIRED\<close> with responses "timeout" and "accepted", user1's late "accepted" is
  recorded and the match becomes \<^verbatim>\<open>ACCEPTED\<close>.
\<close>

theorem set_user_response_terminal_counterexample:
  "set_user_response
     ((new_match 10 20 0.8 0 90000000)
        \<lparr>Match.state := MatchState.EXPIRED,
         user1_response := Some ''timeout'', user2_response := Some ''accepted'',
         completed_at := Some 91000000\<rparr>)
     95000000 95000001 10 ''accepted''
   = Inr ((new_match 10 20 0.8 0 90000000)
        \<lparr>Match.state := MatchState.ACCEPTED,
         user1_response := Some ''accepted'', user2_response := Some ''accepted'',
         completed_at := Some 91000000,
         user1_responded_at := Some 95000000, accepted_at := Some 95000001\<rparr>)"
  by (simp add: set_user_response_def update_state_after_response_def new_match_def
      is_fully_responded_def is_accepted_by_both_def)

text \<open>
  C2, amended. \<^verbatim>\<open>set_user_response\<close> raises \<^verbatim>\<open>ValueError\<close> when the user is
  neither user1 nor user2 of the match, before anything is written; for a participant,
  in every state of the match, it returns normally with the user's response and the
  response timestamp recorded (user1's fields when the user is user1, user2's otherwise).
\<close>

theorem set_user_response_records:
  "(uid \<noteq> Match.user1_id m \<and> uid \<noteq> Match.user2_id m \<longrightarrow>
      set_user_response m now now2 uid r = Inl (ValueError ''User ID not found in this match''))
   \<and> (uid = Match.user1_id m \<longrightarrow>
        (\<exists>m'. set_user_response m now now2 uid r = Inr m'
              \<and> user1_response m' = Some r \<and> user1_responded_at m' = Some now))
   \<and> (uid \<noteq> Match.user1_id m \<and> uid = Match.user2_id m \<longrightarrow>
        (\<exists>m'. set_user_response m now now2 uid r = Inr m'
              \<and> user2_response m' = Some r \<and> user2_responded_at m' = Some now))"
  by (simp add: set_user_response_def update_state_after_response_keeps)

text \<open>A stranger, user1 and user2 answering a match that is already \<^verbatim>\<open>REJECTED\<close>.\<close>

theorem set_user_response_records_witness:
  "set_user_response ((new_match 10 20 0.8 0 90000000)\<lparr>Match.state := MatchState.REJECTED\<rparr>)
       5 6 99 ''accepted''
     = Inl (ValueError ''User ID not found in this match'')
   \<and> (\<exists>m'. set_user_response
               ((new_match 10 20 0.8 0 90000000)\<lparr>Match.state := MatchState.REJECTED\<rparr>)
               5 6 10 ''accepted'' = Inr m'
           \<and> user1_response m' = Some ''accepted'' \<and> user1_responded_at m' = Some 5)
   \<and> (\<exists>m'. set_user_response
               ((new_match 10 20 0.8 0 90000000)\<lparr>Match.state := MatchState.REJECTED\<rparr>)
               5 6 20 ''rejected'' = Inr m'
           \<and> user2_response m' = Some ''rejected'' \<and> user2_responded_at m' = Some 5)"
  using set_user_response_records
          [of 99 "(new_match 10 20 0.8 0 90000000)\<lparr>Match.state := MatchState.REJECTED\<rparr>"
              5 6 "''accepted''"]
        set_user_response_records
          [of 10 "(new_match 10 20 0.8 0 90000000)\<lparr>Match.state := MatchState.REJECTED\<rparr>"
              5 6 "''accepted''"]
        set_user_response_records
          [of 20 "(new_match 10 20 0.8 0 90000000)\<lparr>Match.state := MatchState.REJECTED\<rparr>"
              5 6 "''rejected''"]
  by (simp add: new_match_def)

section \<open>Expiry of a proposal\<close>

text \<open>
  C3, as stated, fails: \<^verbatim>\<open>expire_match\<close> has no guard. A proposed match whose
  \<^verbatim>\<open>expires_at\<close> (90 s) is still ahead of the clock (5 s) is expired all the same, and
  so is a match that is already \<^verbatim>\<open>SESSION_CREATED\<close>.
\<close>

theorem expire_match_unguarded_counterexample:
  "\<not> is_expired (new_match 10 20 0.8 0 90000000) 5000000
   \<and> expire_match (new_match 10 20 0.8 0 90000000) 5000000
       = (new_match 10 20 0.8 0 90000000)
           \<lparr>Match.state := MatchState.EXPIRED, completed_at := Some 5000000,
            user1_response := Some ''timeout'', user2_response := Some ''timeout''\<rparr>
   \<and> Match.state
        (expire_match
           ((new_match 10 20 0.8 0 90000000)\<lparr>Match.state := MatchState.SESSION_CREATED\<rparr>)
           91000000)
       = MatchState.EXPIRED"
  by (simp add: expire_match_def new_match_def is_expired_def)

text \<open>
  C3, amended. \<^verbatim>\<open>expire_match\<close> is unconditional: for every match, in every state and
  at every clock reading, it sets the state to \<^verbatim>\<open>EXPIRED\<close>, sets \<^verbatim>\<open>completed_at\<close> to
  the clock reading, and leaves each response as it was when set and as "timeout" when
  unset.
\<close>

theorem expire_match_unconditional:
  "Match.state (expire_match m now) = MatchState.EXPIRED
   \<and> completed_at (expire_match m now) = Some now
   \<and> user1_response (expire_match m now)
       = Some (case user1_response m of None \<Rightarrow> ''timeout'' | Some r \<Rightarrow> r)
   \<and> user2_response (expire_match m now)
       = Some (case user2_response m of None \<Rightarrow> ''timeout'' | Some r \<Rightarrow> r)"
  by (simp add: expire_match_def Let_def split: option.split)

section \<open>Resolution of a fully answered proposal\<close>

lemma update_state_after_response_resolved:
  assumes "user1_response m = Some a" and "user2_response m = Some b"
  shows "Match.state (update_state_after_response m t)
           = (if a = ''accepted'' \<and> b = ''accepted''
              then MatchState.ACCEPTED else MatchState.REJECTED)"
    and "a = ''accepted'' \<and> b = ''accepted'' \<Longrightarrow>
           accepted_at (update_state_after_response m t) = Some t"
    and "\<not> (a = ''accepted'' \<and> b = ''accepted'') \<Longrightarrow>
           completed_at (update_state_after_response m t) = Some t
           \<and> rejection_reason (update_state_after_response m t)
               = Some (if a = ''rejected'' \<and> b = ''rejected'' then ''both_rejected''
                       else if a = ''rejected'' then ''user1_rejected''
                       else ''user2_rejected'')"
  using assms
  by (auto simp add: update_state_after_response_def is_fully_responded_def
      is_accepted_by_both_def Let_def)

lemma set_user_response_Inr:
  "set_user_response m now now2 uid r = Inr m' \<Longrightarrow>
   \<exists>m1. m' = update_state_after_response m1 now2"
  by (auto simp add: set_user_response_def split: if_splits)

lemma set_user_response_resolved:
  assumes "set_user_response m now now2 uid r = Inr m'"
    and "user1_response m' = Some a" and "user2_response m' = Some b"
  shows "(Match.state m' = MatchState.ACCEPTED \<longleftrightarrow> a = ''accepted'' \<and> b = ''accepted'')
     \<and> (a = ''accepted'' \<and> b = ''accepted'' \<longrightarrow> accepted_at m' = Some now2)
     \<and> (\<not> (a = ''accepted'' \<and> b = ''accepted'') \<longrightarrow>
          Match.state m' = MatchState.REJECTED
          \<and> completed_at m' = Some now2
          \<and> rejection_reason m'
              = Some (if a = ''rejected'' \<and> b = ''rejected'' then ''both_rejected''
                      else if a = ''rejected'' then ''user1_rejected''
                      else ''user2_rejected''))"
proof -
  from assms(1) obtain m1 where m': "m' = update_state_after_response m1 now2"
    by (blast dest: set_user_response_Inr)
  from assms(2,3) have r: "user1_response m1 = Some a" "user2_response m1 = Some b"
    by (simp_all add: m' update_state_after_response_keeps)
  show ?thesis
    unfolding m'
    using update_state_after_response_resolved [OF r, of now2]
    by simp
qed

lemma both_orders:
  assumes "Match.user1_id m \<noteq> Match.user2_id m"
  shows "\<exists>ma ma' mb mb'.
          set_user_response m t1 t1' (Match.user1_id m) r1 = Inr ma
        \<and> set_user_response ma t2 t2' (Match.user2_id m) r2 = Inr ma'
        \<and> set_user_response m t1 t1' (Match.user2_id m) r2 = Inr mb
        \<and> set_user_response mb t2 t2' (Match.user1_id m) r1 = Inr mb'
        \<and> user1_response ma' = Some r1 \<and> user2_response ma' = Some r2
        \<and> user1_response mb' = Some r1 \<and> user2_response mb' = Some r2
        \<and> Match.state ma' = Match.state mb'
        \<and> (Match.state ma' = MatchState.REJECTED \<longrightarrow>
             rejection_reason ma' = rejection_reason mb')
        \<and> (user1_response m = None \<and> user2_response m = None \<longrightarrow>
             rejection_reason ma' = rejection_reason mb'
             \<and> accepted_at ma' = accepted_at mb' \<and> completed_at ma' = completed_at mb')"
proof -
  define ma where "ma = update_state_after_response
      (m\<lparr>user1_response := Some r1, user1_responded_at := Some t1\<rparr>) t1'"
  define ma' where "ma' = update_state_after_response
      (ma\<lparr>user2_response := Some r2, user2_responded_at := Some t2\<rparr>) t2'"
  define mb where "mb = update_state_after_response
      (m\<lparr>user2_response := Some r2, user2_responded_at := Some t1\<rparr>) t1'"
  define mb' where "mb' = update_state_after_response
      (mb\<lparr>user1_response := Some r1, user1_responded_at := Some t2\<rparr>) t2'"
  have a1: "set_user_response m t1 t1' (Match.user1_id m) r1 = Inr ma"
    by (simp add: set_user_response_def ma_def)
  have a2: "set_user_response ma t2 t2' (Match.user2_id m) r2 = Inr ma'"
    using assms by (simp add: set_user_response_def ma'_def ma_def update_state_after_response_keeps)
  have b1: "set_user_response m t1 t1' (Match.user2_id m) r2 = Inr mb"
    using assms by (simp add: set_user_response_def mb_def)
  have b2: "set_user_response mb t2 t2' (Match.user1_id m) r1 = Inr mb'"
    by (simp add: set_user_response_def mb'_def mb_def update_state_after_response_keeps)
  have ra: "user1_response ma' = Some r1" "user2_response ma' = Some r2"
    by (simp_all add: ma'_def ma_def update_state_after_response_keeps)
  have rb: "user1_response mb' = Some r1" "user2_response mb' = Some r2"
    by (simp_all add: mb'_def mb_def update_state_after_response_keeps)
  note A = set_user_response_resolved [OF a2 ra]
  note B = set_user_response_resolved [OF b2 rb]
  have st: "Match.state ma' = Match.state mb'"
    using A B by (cases "r1 = ''accepted'' \<and> r2 = ''accepted''") simp_all
  have rj: "Match.state ma' = MatchState.REJECTED \<longrightarrow>
             rejection_reason ma' = rejection_reason mb'"
    using A B by (cases "r1 = ''accepted'' \<and> r2 = ''accepted''") simp_all
  have fresh: "user1_response m = None \<and> user2_response m = None \<longrightarrow>
             rejection_reason ma' = rejection_reason mb'
             \<and> accepted_at ma' = accepted_at mb' \<and> completed_at ma' = completed_at mb'"
    by (simp add: ma'_def ma_def mb'_def mb_def update_state_after_response_def
        is_fully_responded_def is_accepted_by_both_def Let_def)
  from a1 a2 b1 b2 ra rb st rj fresh show ?thesis by blast
qed

text \<open>
  C4. Whenever \<^verbatim>\<open>set_user_response\<close> returns a match in which both users have
  responded, with responses \<open>a\<close> (user1) and \<open>b\<close> (user2): the state is \<^verbatim>\<open>ACCEPTED\<close>
  iff both are "accepted", and then \<^verbatim>\<open>accepted_at\<close> is set; otherwise the state is
  \<^verbatim>\<open>REJECTED\<close>, \<^verbatim>\<open>completed_at\<close> is set and \<^verbatim>\<open>rejection_reason\<close> is
  "both_rejected" when both are "rejected", "user1_rejected" when only user1's is, and
  "user2_rejected" otherwise. The outcome does not depend on who responds first: when
  user1 answers \<open>r1\<close> and user2 answers \<open>r2\<close>, in either order of arrival, both calls
  return, the final responses and the final state agree, and so does the rejection reason
  of a rejected match; from a match with no response yet, the rejection reason and the
  resolution timestamps agree as well.
\<close>

theorem set_user_response_resolution:
  "(set_user_response m now now2 uid r = Inr m'
      \<and> user1_response m' = Some a \<and> user2_response m' = Some b \<longrightarrow>
      (Match.state m' = MatchState.ACCEPTED \<longleftrightarrow> a = ''accepted'' \<and> b = ''accepted'')
      \<and> (a = ''accepted'' \<and> b = ''accepted'' \<longrightarrow> accepted_at m' = Some now2)
      \<and> (\<not> (a = ''accepted'' \<and> b = ''accepted'') \<longrightarrow>
           Match.state m' = MatchState.REJECTED
           \<and> completed_at m' = Some now2
           \<and> rejection_reason m'
               = Some (if a = ''rejected'' \<and> b = ''rejected'' then ''both_rejected''
                       else if a = ''rejected'' then ''user1_rejected''
                       else ''user2_rejected'')))
   \<and> (Match.user1_id m \<noteq> Match.user2_id m \<longrightarrow>
        (\<exists>ma ma' mb mb'.
            set_user_response m t1 t1' (Match.user1_id m) r1 = Inr ma
          \<and> set_user_response ma t2 t2' (Match.user2_id m) r2 = Inr ma'
          \<and> set_user_response m t1 t1' (Match.user2_id m) r2 = Inr mb
          \<and> set_user_response mb t2 t2' (Match.user1_id m) r1 = Inr mb'
          \<and> user1_response ma' = Some r1 \<and> user2_response ma' = Some r2
          \<and> user1_response mb' = Some r1 \<and> user2_response mb' = Some r2
          \<and> Match.state ma' = Match.state mb'
          \<and> (Match.state ma' = MatchState.REJECTED \<longrightarrow>
               rejection_reason ma' = rejection_reason mb')
          \<and> (user1_response m = None \<and> user2_response m = None \<longrightarrow>
               rejection_reason ma' = rejection_reason mb'
               \<and> accepted_at ma' = accepted_at mb' \<and> completed_at ma' = completed_at mb')))"
  using set_user_response_resolved [of m now now2 uid r m' a b]
        both_orders [of m t1 t1' r1 t2 t2' r2]
  by blast

text \<open>
  User1 has rejected and user2 accepts; and the two arrival orders of "rejected" by
  user1 and "accepted" by user2 on a fresh proposal.
\<close>

theorem set_user_response_resolution_witness:
  "(\<exists>m'. set_user_response
            ((new_match 10 20 0.8 0 90000000)
               \<lparr>user1_response := Some ''rejected'', user1_responded_at := Some 5\<rparr>)
            7 8 20 ''accepted'' = Inr m'
         \<and> Match.state m' = MatchState.REJECTED
         \<and> completed_at m' = Some 8
         \<and> rejection_reason m' = Some ''user1_rejected'')
   \<and> (\<exists>ma ma' mb mb'.
          set_user_response (new_match 10 20 0.8 0 90000000) 5 6 10 ''rejected'' = Inr ma
        \<and> set_user_response ma 7 8 20 ''accepted'' = Inr ma'
        \<and> set_user_response (new_match 10 20 0.8 0 90000000) 5 6 20 ''accepted'' = Inr mb
        \<and> set_user_response mb 7 8 10 ''rejected'' = Inr mb'
        \<and> Match.state ma' = Match.state mb'
        \<and> rejection_reason ma' = rejection_reason mb')"
proof -
  let ?M = "new_match 10 20 0.8 0 90000000"
  let ?M1 = "?M\<lparr>user1_response := Some ''rejected'', user1_responded_at := Some 5\<rparr>"
  have "\<exists>m'. set_user_response ?M1 7 8 20 ''accepted'' = Inr m'
          \<and> user1_response m' = Some ''rejected'' \<and> user2_response m' = Some ''accepted''"
    by (simp add: set_user_response_def update_state_after_response_keeps new_match_def)
  then obtain m' where h: "set_user_response ?M1 7 8 20 ''accepted'' = Inr m'"
      "user1_response m' = Some ''rejected''" "user2_response m' = Some ''accepted''"
    by blast
  from h set_user_response_resolution
         [where m = ?M1 and now = 7 and ?now2.0 = 8 and uid = 20 and r = "''accepted''"
            and m' = m' and a = "''rejected''" and b = "''accepted''"]
  have p1: "\<exists>m'. set_user_response ?M1 7 8 20 ''accepted'' = Inr m'
         \<and> Match.state m' = MatchState.REJECTED
         \<and> completed_at m' = Some 8
         \<and> rejection_reason m' = Some ''user1_rejected''"
    by simp
  have ids: "Match.user1_id ?M = 10" "Match.user2_id ?M = 20"
      "user1_response ?M = None" "user2_response ?M = None"
    by (simp_all add: new_match_def)
  from set_user_response_resolution
         [where m = ?M and ?t1.0 = 5 and t1' = 6 and ?t2.0 = 7 and t2' = 8
            and ?r1.0 = "''rejected''" and ?r2.0 = "''accepted''", THEN conjunct2]
  have p2: "\<exists>ma ma' mb mb'.
          set_user_response ?M 5 6 10 ''rejected'' = Inr ma
        \<and> set_user_response ma 7 8 20 ''accepted'' = Inr ma'
        \<and> set_user_response ?M 5 6 20 ''accepted'' = Inr mb
        \<and> set_user_response mb 7 8 10 ''rejected'' = Inr mb'
        \<and> Match.state ma' = Match.state mb'
        \<and> rejection_reason ma' = rejection_reason mb'"
    unfolding ids by auto
  from p1 p2 show ?thesis by blast
qed

section \<open>The match quality score\<close>

lemma score_loop_weights:
  "score_loop weights factors s =
     s + 0.25 * factor_value factors ''level_affinity''
       + 0.30 * factor_value factors ''native_target_match''
       + 0.20 * factor_value factors ''interest_overlap''
       + 0.15 * factor_value factors ''timezone_overlap''
       + 0.10 * factor_value factors ''quality_score''"
  by (simp add: weights_def factor_value_def split: option.split)

text \<open>
  C5. \<^verbatim>\<open>calculate_match_quality_score\<close> is the weighted sum of the five factors, with
  weights 0.25, 0.30, 0.20, 0.15 and 0.10 and a missing factor counting 0, clamped to
  [0, 1]; the clamp is on the sum only (a factor of 3 and a factor of -1 enter the sum as
  they are: 0.75 - 0.30 = 0.45), and the result always lies in [0, 1]. Being a function
  of \<open>factors\<close> alone, it is pure and deterministic.
\<close>

theorem calculate_match_quality_score_clamped_sum:
  "calculate_match_quality_score factors
     = min 1 (max 0
         (0.25 * factor_value factors ''level_affinity''
          + 0.30 * factor_value factors ''native_target_match''
          + 0.20 * factor_value factors ''interest_overlap''
          + 0.15 * factor_value factors ''timezone_overlap''
          + 0.10 * factor_value factors ''quality_score''))
   \<and> 0 \<le> calculate_match_quality_score factors
   \<and> calculate_match_quality_score factors \<le> 1
   \<and> calculate_match_quality_score
        [''level_affinity'' \<mapsto> 3, ''native_target_match'' \<mapsto> - 1] = 0.45
   \<and> calculate_match_quality_score Map.empty = 0"
proof -
  have sum: "calculate_match_quality_score f
     = min 1 (max 0
         (0.25 * factor_value f ''level_affinity''
          + 0.30 * factor_value f ''native_target_match''
          + 0.20 * factor_value f ''interest_overlap''
          + 0.15 * factor_value f ''timezone_overlap''
          + 0.10 * factor_value f ''quality_score''))" for f
    by (simp add: calculate_match_quality_score_def score_loop_weights)
  have lo: "0 \<le> calculate_match_quality_score factors"
    by (simp add: calculate_match_quality_score_def)
  have hi: "calculate_match_quality_score factors \<le> 1"
    by (simp add: calculate_match_quality_score_def)
  have ex: "calculate_match_quality_score
        [''level_affinity'' \<mapsto> 3, ''native_target_match'' \<mapsto> - 1] = 0.45"
    by (simp add: sum factor_value_def)
  have em: "calculate_match_quality_score Map.empty = 0"
    by (simp add: sum factor_value_def)
  from sum [of factors] lo hi ex em show ?thesis by blast
qed

section \<open>Strikes and cooldown\<close>

text \<open>
  C6. \<^verbatim>\<open>add_strike\<close> increments \<^verbatim>\<open>strike_count\<close> by exactly one, and whenever the
  new count is at least 3 the candidate is in status \<^verbatim>\<open>COOLDOWN\<close>, with
  \<^verbatim>\<open>cooldown_until\<close> 24 hours (in microseconds) after the clock reading and
  \<^verbatim>\<open>cooldown_reason\<close> "excessive_strikes".
\<close>

theorem add_strike_cooldown:
  "strike_count (add_strike c now) = strike_count c + 1
   \<and> (strike_count c + 1 \<ge> 3 \<longrightarrow>
        status (add_strike c now) = COOLDOWN
        \<and> cooldown_until (add_strike c now) = Some (now + 24 * 60 * 60 * 1000000)
        \<and> cooldown_reason (add_strike c now) = Some ''excessive_strikes'')"
  by (simp add: add_strike_def add_cooldown_def timedelta_minutes_def Let_def)

text \<open>The third strike on an idle candidate, at clock reading 1000.\<close>

theorem add_strike_cooldown_witness:
  "strike_count (add_strike ((new_candidate 7)\<lparr>strike_count := 2\<rparr>) 1000) = 3
   \<and> status ((new_candidate 7)\<lparr>strike_count := 2\<rparr>) = IDLE
   \<and> status (add_strike ((new_candidate 7)\<lparr>strike_count := 2\<rparr>) 1000) = COOLDOWN
   \<and> cooldown_until (add_strike ((new_candidate 7)\<lparr>strike_count := 2\<rparr>) 1000)
       = Some 86400001000
   \<and> cooldown_reason (add_strike ((new_candidate 7)\<lparr>strike_count := 2\<rparr>) 1000)
       = Some ''excessive_strikes''"
  using add_strike_cooldown [of "(new_candidate 7)\<lparr>strike_count := 2\<rparr>" 1000]
  by (simp add: new_candidate_def)

section \<open>The turn language\<close>

lemma switch_turn_language_fields:
  "current_turn_language (switch_turn_language s now)
     = (case current_turn_language s of
          USER1_NATIVE \<Rightarrow> USER2_NATIVE
        | USER2_NATIVE \<Rightarrow> USER1_NATIVE
        | MIXED \<Rightarrow> USER1_NATIVE)"
  "turn_switched_at (switch_turn_language s now) = Some now"
  "turn_switch_count (switch_turn_language s now) = turn_switch_count s + 1"
  by (simp_all add: switch_turn_language_def Let_def split: TurnLanguage.split)

lemma switch_turns_language:
  "nows \<noteq> [] \<Longrightarrow>
   current_turn_language (switch_turns s nows)
     = (if (current_turn_language s = USER1_NATIVE) = odd (length nows)
        then USER2_NATIVE else USER1_NATIVE)"
proof (induction nows arbitrary: s)
  case Nil
  then show ?case by simp
next
  case (Cons t ts)
  show ?case
  proof (cases "ts = []")
    case True
    then show ?thesis
      by (simp add: switch_turn_language_fields split: TurnLanguage.split)
  next
    case False
    from Cons.IH [OF False, of "switch_turn_language s t"] show ?thesis
      by (simp add: switch_turn_language_fields split: TurnLanguage.split)
  qed
qed

text \<open>
  C7. \<^verbatim>\<open>switch_turn_language\<close> maps \<^verbatim>\<open>USER1_NATIVE\<close> to \<^verbatim>\<open>USER2_NATIVE\<close>,
  \<^verbatim>\<open>USER2_NATIVE\<close> to \<^verbatim>\<open>USER1_NATIVE\<close> and \<^verbatim>\<open>MIXED\<close> to \<^verbatim>\<open>USER1_NATIVE\<close>, sets
  \<^verbatim>\<open>turn_switched_at\<close> to the clock reading and adds exactly one to
  \<^verbatim>\<open>turn_switch_count\<close>. After one or more switches the turn language is never
  \<^verbatim>\<open>MIXED\<close>, and from \<^verbatim>\<open>MIXED\<close> it is \<^verbatim>\<open>USER1_NATIVE\<close> after an odd number of
  switches and \<^verbatim>\<open>USER2_NATIVE\<close> after an even one.
\<close>

theorem switch_turn_language_cycle:
  "current_turn_language (switch_turn_language s now)
     = (case current_turn_language s of
          USER1_NATIVE \<Rightarrow> USER2_NATIVE
        | USER2_NATIVE \<Rightarrow> USER1_NATIVE
        | MIXED \<Rightarrow> USER1_NATIVE)
   \<and> turn_switched_at (switch_turn_language s now) = Some now
   \<and> turn_switch_count (switch_turn_language s now) = turn_switch_count s + 1
   \<and> (nows \<noteq> [] \<longrightarrow> current_turn_language (switch_turns s nows) \<noteq> MIXED)
   \<and> (current_turn_language s = MIXED \<and> nows \<noteq> [] \<longrightarrow>
        current_turn_language (switch_turns s nows)
          = (if odd (length nows) then USER1_NATIVE else USER2_NATIVE))"
  by (simp add: switch_turn_language_fields switch_turns_language)

text \<open>Three, two and one switches from \<^verbatim>\<open>MIXED\<close>.\<close>

theorem switch_turn_language_cycle_witness:
  "current_turn_language
     (switch_turns ((new_session 1 10 20 0)\<lparr>current_turn_language := MIXED\<rparr>) [5, 6, 7])
     = USER1_NATIVE
   \<and> current_turn_language
     (switch_turns ((new_session 1 10 20 0)\<lparr>current_turn_language := MIXED\<rparr>) [5, 6])
     = USER2_NATIVE
   \<and> current_turn_language
     (switch_turns ((new_session 1 10 20 0)\<lparr>current_turn_language := MIXED\<rparr>) [5])
     = USER1_NATIVE"
  using switch_turn_language_cycle
          [of "(new_session 1 10 20 0)\<lparr>current_turn_language := MIXED\<rparr>" 0 "[5, 6, 7]"]
        switch_turn_language_cycle
          [of "(new_session 1 10 20 0)\<lparr>current_turn_language := MIXED\<rparr>" 0 "[5, 6]"]
        switch_turn_language_cycle
          [of "(new_session 1 10 20 0)\<lparr>current_turn_language := MIXED\<rparr>" 0 "[5]"]
  by (simp add: new_session_def)

section \<open>Expiry keeps recorded responses\<close>

text \<open>
  C8. \<^verbatim>\<open>expire_match\<close> never overwrites a recorded response: a response that is set
  before the call has the same value after it, and only a response that is unset before
  the call becomes "timeout".
\<close>

theorem expire_match_keeps_responses:
  "(user1_response m = Some r1 \<longrightarrow> user1_response (expire_match m now) = Some r1)
   \<and> (user2_response m = Some r2 \<longrightarrow> user2_response (expire_match m now) = Some r2)
   \<and> (user1_response m = None \<longrightarrow> user1_response (expire_match m now) = Some ''timeout'')
   \<and> (user2_response m = None \<longrightarrow> user2_response (expire_match m now) = Some ''timeout'')"
  by (simp add: expire_match_def Let_def)

text \<open>One side has answered, the other has not.\<close>

theorem expire_match_keeps_responses_witness:
  "user1_response
     (expire_match ((new_match 10 20 0.8 0 90000000)\<lparr>user1_response := Some ''accepted''\<rparr>)
        91000000) = Some ''accepted''
   \<and> user2_response
     (expire_match ((new_match 10 20 0.8 0 90000000)\<lparr>user1_response := Some ''accepted''\<rparr>)
        91000000) = Some ''timeout''
   \<and> user2_response
     (expire_match ((new_match 10 20 0.8 0 90000000)\<lparr>user2_response := Some ''rejected''\<rparr>)
        91000000) = Some ''rejected''
   \<and> user1_response
     (expire_match ((new_match 10 20 0.8 0 90000000)\<lparr>user2_response := Some ''rejected''\<rparr>)
        91000000) = Some ''timeout''"
  using expire_match_keeps_responses
          [of "(new_match 10 20 0.8 0 90000000)\<lparr>user1_response := Some ''accepted''\<rparr>"
              "''accepted''" 91000000 "''x''"]
        expire_match_keeps_responses
          [of "(new_match 10 20 0.8 0 90000000)\<lparr>user2_response := Some ''rejected''\<rparr>"
              "''x''" 91000000 "''rejected''"]
  by (simp add: new_match_def)

section \<open>The running mean of ratings\<close>

text \<open>
  C9. For a candidate whose \<^verbatim>\<open>total_ratings\<close> is not negative, \<^verbatim>\<open>add_rating\<close> returns
  normally, \<^verbatim>\<open>total_ratings\<close> grows by one and the new \<^verbatim>\<open>average_rating\<close> is
  (old average * old count + rating) / (old count + 1), in exact arithmetic; with no
  rating yet, the new average is the rating itself, whatever the old average was.
\<close>

theorem add_rating_running_mean:
  "0 \<le> total_ratings c \<Longrightarrow>
   \<exists>c'. add_rating c r = Inr c'
       \<and> total_ratings c' = total_ratings c + 1
       \<and> average_rating c'
           = (average_rating c * real_of_int (total_ratings c) + r)
               / real_of_int (total_ratings c + 1)
       \<and> (total_ratings c = 0 \<longrightarrow> average_rating c' = r)"
  by (auto simp add: add_rating_def Let_def)

text \<open>The first rating, 3, of a new candidate, whose default average is 5.\<close>

theorem add_rating_running_mean_witness:
  "average_rating (new_candidate 7) = 5 \<and> total_ratings (new_candidate 7) = 0
   \<and> (\<exists>c'. add_rating (new_candidate 7) 3 = Inr c'
          \<and> total_ratings c' = 1 \<and> average_rating c' = 3)"
  using add_rating_running_mean [of "new_candidate 7" 3]
  by (auto simp add: new_candidate_def)

section \<open>Pausing and resuming in the wrong state\<close>

text \<open>
  C10. \<^verbatim>\<open>pause_session\<close> on a session that is not \<^verbatim>\<open>ACTIVE\<close>, and
  \<^verbatim>\<open>resume_session\<close> on a session that is not \<^verbatim>\<open>PAUSED\<close> or has no
  \<^verbatim>\<open>paused_at\<close>, return the session as it was, every field included; neither method
  has a failing branch.
\<close>

theorem pause_resume_noop:
  "(Session.state s \<noteq> ACTIVE \<longrightarrow> pause_session s now reason = s)
   \<and> (Session.state s \<noteq> PAUSED \<or> paused_at s = None \<longrightarrow> resume_session s now now2 = s)"
  by (auto simp add: pause_session_def resume_session_def split: option.split)

text \<open>
  Pausing an ended session; resuming an active one; resuming a paused session whose
  \<^verbatim>\<open>paused_at\<close> is unset.
\<close>

theorem pause_resume_noop_witness:
  "pause_session ((new_session 1 10 20 0)\<lparr>Session.state := ENDED\<rparr>) 5 ''disconnection''
     = (new_session 1 10 20 0)\<lparr>Session.state := ENDED\<rparr>
   \<and> resume_session (new_session 1 10 20 0) 5 6 = new_session 1 10 20 0
   \<and> resume_session ((new_session 1 10 20 0)\<lparr>Session.state := PAUSED\<rparr>) 5 6
     = (new_session 1 10 20 0)\<lparr>Session.state := PAUSED\<rparr>"
  using pause_resume_noop
          [of "(new_session 1 10 20 0)\<lparr>Session.state := ENDED\<rparr>" 5 "''disconnection''" 6]
        pause_resume_noop [of "new_session 1 10 20 0" 5 "''x''" 6]
        pause_resume_noop [of "(new_session 1 10 20 0)\<lparr>Session.state := PAUSED\<rparr>" 5 "''x''" 6]
  by (simp add: new_session_def)

end
